theory Spec2Isabelle
  imports Main
begin

section \<open>Browser acquisition and teardown (module browser.py)\<close>

text \<open>
  The module is glue around three external collaborators: the HTTP client
  (\<^verbatim>\<open>requests.get\<close>), the process launcher (\<^verbatim>\<open>subprocess.Popen\<close>) and the
  browser driver (\<^verbatim>\<open>DrissionPage(...)\<close>, \<^verbatim>\<open>page.close()\<close>).  Each external
  call is modelled as an event appended to a trace, and its outcome is read
  from a script held in the world: the outcome of the next call of each kind
  is at index 0, and the script advances by one at every call.  Every method
  of \<^verbatim>\<open>Browser\<close> becomes a function from the object and the world to a
  result (an exception or a value), the updated object and the updated world.
  Logging, \<^verbatim>\<open>gc.collect()\<close> and the timing decorator of \<^verbatim>\<open>_init\<close> have no
  effect on the object or on the external calls and are left out.
\<close>

subsection \<open>Configuration and object state\<close>

text \<open>
  \<^verbatim>\<open>BrowserConfig\<close>, field by field.  \<^verbatim>\<open>proxy\<close> is a dictionary or None; only
  its emptiness and its entry \<^verbatim>\<open>"server"\<close> are read, so it is an association
  list.  \<^verbatim>\<open>new_context_config\<close> is never read by \<^verbatim>\<open>Browser\<close> and is omitted.
\<close>

record BrowserConfig =
  headless :: bool
  disable_security :: bool
  extra_chromium_args :: "string list"
  chrome_instance_path :: "string option"
  wss_url :: "string option"
  cdp_url :: "string option"
  proxy :: "(string \<times> string) list option"
  force_keep_browser_alive :: bool

text \<open>A driver object, identified by a number (object identity).\<close>

datatype DrissionPage = DrissionPage nat

record Browser =
  config :: BrowserConfig
  drission :: "DrissionPage option"
  disable_security_args :: "string list"

text \<open>
  Exceptions.  The first three are raised by the module itself.  The
  \<^verbatim>\<open>requests\<close> exceptions follow that library's hierarchy:
  \<^verbatim>\<open>ConnectTimeout\<close> derives from \<^verbatim>\<open>ConnectionError\<close> (and \<^verbatim>\<open>Timeout\<close>), while
  \<^verbatim>\<open>ReadTimeout\<close> derives from \<^verbatim>\<open>Timeout\<close> only.  All of them derive from
  \<^verbatim>\<open>Exception\<close>.
\<close>

datatype exn =
    ValueError string
  | RuntimeError string
  | KeyError string
  | RequestsConnectionError
  | RequestsConnectTimeout
  | RequestsReadTimeout
  | OSError string
  | OtherException string

text \<open>\<^verbatim>\<open>except requests.ConnectionError\<close>: which exceptions the handler catches.\<close>

fun is_requests_ConnectionError :: "exn \<Rightarrow> bool" where
  "is_requests_ConnectionError RequestsConnectionError = True"
| "is_requests_ConnectionError RequestsConnectTimeout = True"
| "is_requests_ConnectionError _ = False"

text \<open>Python truthiness of \<^verbatim>\<open>str | None\<close>, \<^verbatim>\<open>dict | None\<close> and \<^verbatim>\<open>list\<close>.\<close>

definition truthy :: "'a list option \<Rightarrow> bool" where
  "truthy x = (case x of None \<Rightarrow> False | Some s \<Rightarrow> s \<noteq> [])"

subsection \<open>The world: external calls and their outcomes\<close>

datatype stdio = DEVNULL | INHERIT

datatype event =
    HttpGet string int
  | Popen "string list" stdio stdio
  | Sleep int
  | Connect string
  | Launch "string list"
  | ClosePage DrissionPage

record world =
  get_results :: "nat \<Rightarrow> exn + int"
  popen_results :: "nat \<Rightarrow> exn option"
  page_results :: "nat \<Rightarrow> exn + DrissionPage"
  close_results :: "nat \<Rightarrow> exn option"
  trace :: "event list"

text \<open>\<^verbatim>\<open>requests.get(url, timeout=t)\<close>: an exception or the response's status code.\<close>

definition requests_get :: "string \<Rightarrow> int \<Rightarrow> world \<Rightarrow> (exn + int) \<times> world" where
  "requests_get url t w =
     (get_results w 0,
      w\<lparr>get_results := (\<lambda>n. get_results w (Suc n)), trace := trace w @ [HttpGet url t]\<rparr>)"

text \<open>\<^verbatim>\<open>subprocess.Popen(argv, stdout=..., stderr=...)\<close>: None when the child started.\<close>

definition subprocess_Popen :: "string list \<Rightarrow> stdio \<Rightarrow> stdio \<Rightarrow> world \<Rightarrow> exn option \<times> world" where
  "subprocess_Popen argv out err w =
     (popen_results w 0,
      w\<lparr>popen_results := (\<lambda>n. popen_results w (Suc n)), trace := trace w @ [Popen argv out err]\<rparr>)"

text \<open>\<^verbatim>\<open>await asyncio.sleep(t)\<close>.\<close>

definition asyncio_sleep :: "int \<Rightarrow> world \<Rightarrow> world" where
  "asyncio_sleep t w = w\<lparr>trace := trace w @ [Sleep t]\<rparr>"

text \<open>\<^verbatim>\<open>DrissionPage(url=u)\<close>: connect to a running browser.\<close>

definition DrissionPage_url :: "string \<Rightarrow> world \<Rightarrow> (exn + DrissionPage) \<times> world" where
  "DrissionPage_url u w =
     (page_results w 0,
      w\<lparr>page_results := (\<lambda>n. page_results w (Suc n)), trace := trace w @ [Connect u]\<rparr>)"

text \<open>\<^verbatim>\<open>DrissionPage(options=options)\<close>: launch a browser with the options' arguments.\<close>

definition DrissionPage_options :: "string list \<Rightarrow> world \<Rightarrow> (exn + DrissionPage) \<times> world" where
  "DrissionPage_options args w =
     (page_results w 0,
      w\<lparr>page_results := (\<lambda>n. page_results w (Suc n)), trace := trace w @ [Launch args]\<rparr>)"

text \<open>\<^verbatim>\<open>page.close()\<close>: None when the browser was terminated.\<close>

definition page_close :: "DrissionPage \<Rightarrow> world \<Rightarrow> exn option \<times> world" where
  "page_close h w =
     (close_results w 0,
      w\<lparr>close_results := (\<lambda>n. close_results w (Suc n)), trace := trace w @ [ClosePage h]\<rparr>)"

subsection \<open>The class Browser\<close>

text \<open>\<^verbatim>\<open>Browser.__init__\<close>.\<close>

definition Browser_init :: "BrowserConfig \<Rightarrow> Browser" where
  "Browser_init cfg =
     \<lparr>config = cfg, drission = None,
      disable_security_args =
        (if disable_security cfg
         then [''--disable-web-security'',
               ''--disable-site-isolation-trials'',
               ''--disable-features=IsolateOrigins,site-per-process'']
         else [])\<rparr>"

text \<open>\<^verbatim>\<open>Browser._init\<close>: the options are the arguments added, in order.\<close>

definition init_options :: "Browser \<Rightarrow> string list" where
  "init_options b =
     (if headless (config b) then [''--headless''] else [])
     @ (if extra_chromium_args (config b) \<noteq> [] then extra_chromium_args (config b) else [])
     @ (if disable_security_args b \<noteq> [] then disable_security_args b else [])"

definition init :: "Browser \<Rightarrow> world \<Rightarrow> (exn + DrissionPage) \<times> Browser \<times> world" where
  "init b w =
     (case DrissionPage_options (init_options b) w of
        (Inl e, w1) \<Rightarrow> (Inl e, b, w1)
      | (Inr h, w1) \<Rightarrow> (Inr h, b\<lparr>drission := Some h\<rparr>, w1))"

text \<open>\<^verbatim>\<open>Browser.get_drission_browser\<close>.\<close>

definition get_drission_browser :: "Browser \<Rightarrow> world \<Rightarrow> (exn + DrissionPage) \<times> Browser \<times> world" where
  "get_drission_browser b w =
     (case drission b of
        None \<Rightarrow> init b w
      | Some h \<Rightarrow> (Inr h, b, w))"

text \<open>\<^verbatim>\<open>Browser._setup_cdp\<close> and \<^verbatim>\<open>Browser._setup_wss\<close>.\<close>

definition setup_cdp :: "Browser \<Rightarrow> world \<Rightarrow> (exn + DrissionPage) \<times> Browser \<times> world" where
  "setup_cdp b w =
     (case cdp_url (config b) of
        None \<Rightarrow> (Inl (ValueError ''CDP URL is required''), b, w)
      | Some u \<Rightarrow>
          if u = [] then (Inl (ValueError ''CDP URL is required''), b, w)
          else (case DrissionPage_url u w of
                  (Inl e, w1) \<Rightarrow> (Inl e, b, w1)
                | (Inr h, w1) \<Rightarrow> (Inr h, b\<lparr>drission := Some h\<rparr>, w1)))"

definition setup_wss :: "Browser \<Rightarrow> world \<Rightarrow> (exn + DrissionPage) \<times> Browser \<times> world" where
  "setup_wss b w =
     (case wss_url (config b) of
        None \<Rightarrow> (Inl (ValueError ''WSS URL is required''), b, w)
      | Some u \<Rightarrow>
          if u = [] then (Inl (ValueError ''WSS URL is required''), b, w)
          else (case DrissionPage_url u w of
                  (Inl e, w1) \<Rightarrow> (Inl e, b, w1)
                | (Inr h, w1) \<Rightarrow> (Inr h, b\<lparr>drission := Some h\<rparr>, w1)))"

text \<open>\<^verbatim>\<open>Browser._setup_browser_with_instance\<close>.\<close>

definition version_url :: string where
  "version_url = ''http://localhost:9222/json/version''"

definition debug_url :: string where
  "debug_url = ''http://localhost:9222''"

definition conflict_message :: string where
  "conflict_message = ''To start chrome in Debug mode, you need to close all existing Chrome instances and try again otherwise we cannot connect to the instance.''"

text \<open>
  The loop \<^verbatim>\<open>for _ in range(n)\<close> of lines 156 to 163: \<^verbatim>\<open>break\<close> on status 200,
  \<^verbatim>\<open>pass\<close> on a \<^verbatim>\<open>requests.ConnectionError\<close>, the sleep after every attempt
  that did not break; any other exception leaves the loop and the method.
\<close>

fun poll_ready :: "nat \<Rightarrow> world \<Rightarrow> (exn + unit) \<times> world" where
  "poll_ready 0 w = (Inr (), w)"
| "poll_ready (Suc n) w =
     (case requests_get version_url 2 w of
        (Inr status, w1) \<Rightarrow>
          if status = 200 then (Inr (), w1)
          else poll_ready n (asyncio_sleep 1 w1)
      | (Inl e, w1) \<Rightarrow>
          if is_requests_ConnectionError e then poll_ready n (asyncio_sleep 1 w1)
          else (Inl e, w1))"

text \<open>Lines 144 to 173: start a new instance, wait for it, attach.\<close>

definition start_new_instance ::
  "string \<Rightarrow> Browser \<Rightarrow> world \<Rightarrow> (exn + DrissionPage) \<times> Browser \<times> world" where
  "start_new_instance p b w =
     (case subprocess_Popen
             ([p, ''--remote-debugging-port=9222''] @ extra_chromium_args (config b))
             DEVNULL DEVNULL w of
        (Some e, w1) \<Rightarrow> (Inl e, b, w1)
      | (None, w1) \<Rightarrow>
          (case poll_ready 10 w1 of
             (Inl e, w2) \<Rightarrow> (Inl e, b, w2)
           | (Inr u, w2) \<Rightarrow>
               (case DrissionPage_url debug_url w2 of
                  (Inr h, w3) \<Rightarrow> (Inr h, b\<lparr>drission := Some h\<rparr>, w3)
                | (Inl e, w3) \<Rightarrow> (Inl (RuntimeError conflict_message), b, w3))))"

text \<open>
  Lines 126 to 143.  The attach of line 139 is inside the \<^verbatim>\<open>try\<close>, so a
  \<^verbatim>\<open>requests.ConnectionError\<close> raised by it is caught as well.
\<close>

definition setup_browser_with_instance ::
  "Browser \<Rightarrow> world \<Rightarrow> (exn + DrissionPage) \<times> Browser \<times> world" where
  "setup_browser_with_instance b w =
     (case chrome_instance_path (config b) of
        None \<Rightarrow> (Inl (ValueError ''Chrome instance path is required''), b, w)
      | Some p \<Rightarrow>
          if p = [] then (Inl (ValueError ''Chrome instance path is required''), b, w)
          else
            (case requests_get version_url 2 w of
               (Inr status, w1) \<Rightarrow>
                 if status = 200 then
                   (case DrissionPage_url debug_url w1 of
                      (Inr h, w2) \<Rightarrow> (Inr h, b\<lparr>drission := Some h\<rparr>, w2)
                    | (Inl e, w2) \<Rightarrow>
                        if is_requests_ConnectionError e then start_new_instance p b w2
                        else (Inl e, b, w2))
                 else start_new_instance p b w1
             | (Inl e, w1) \<Rightarrow>
                 if is_requests_ConnectionError e then start_new_instance p b w1
                 else (Inl e, b, w1)))"

text \<open>\<^verbatim>\<open>Browser._setup_standard_browser\<close>.\<close>

definition baseline_args :: "string list" where
  "baseline_args =
     [''--no-sandbox'',
      ''--disable-blink-features=AutomationControlled'',
      ''--disable-infobars'',
      ''--disable-background-timer-throttling'',
      ''--disable-popup-blocking'',
      ''--disable-backgrounding-occluded-windows'',
      ''--disable-renderer-backgrounding'',
      ''--disable-window-activation'',
      ''--disable-focus-on-load'',
      ''--no-first-run'',
      ''--no-default-browser-check'',
      ''--no-startup-window'',
      ''--window-position=0,0'']"

text \<open>The options after the loop of lines 197 and 198.\<close>

definition standard_args :: "Browser \<Rightarrow> string list" where
  "standard_args b =
     (if headless (config b) then [''--headless''] else [])
     @ (baseline_args @ disable_security_args b @ extra_chromium_args (config b))"

text \<open>
  Lines 200 and 201: \<^verbatim>\<open>self.config.proxy["server"]\<close> raises KeyError when the
  dictionary has no such key.
\<close>

definition standard_options :: "Browser \<Rightarrow> exn + string list" where
  "standard_options b =
     (case proxy (config b) of
        None \<Rightarrow> Inr (standard_args b)
      | Some d \<Rightarrow>
          if d = [] then Inr (standard_args b)
          else (case map_of d ''server'' of
                  None \<Rightarrow> Inl (KeyError ''server'')
                | Some s \<Rightarrow> Inr (standard_args b @ [''--proxy-server='' @ s])))"

definition setup_standard_browser ::
  "Browser \<Rightarrow> world \<Rightarrow> (exn + DrissionPage) \<times> Browser \<times> world" where
  "setup_standard_browser b w =
     (case standard_options b of
        Inl e \<Rightarrow> (Inl e, b, w)
      | Inr args \<Rightarrow>
          (case DrissionPage_options args w of
             (Inl e, w1) \<Rightarrow> (Inl e, b, w1)
           | (Inr h, w1) \<Rightarrow> (Inr h, b\<lparr>drission := Some h\<rparr>, w1)))"

text \<open>
  \<^verbatim>\<open>Browser._setup_browser\<close>.  The handler of lines 217 to 219 logs and raises
  the same exception again, so the result is that of the branch taken.
\<close>

definition setup_browser :: "Browser \<Rightarrow> world \<Rightarrow> (exn + DrissionPage) \<times> Browser \<times> world" where
  "setup_browser b w =
     (if truthy (cdp_url (config b)) then setup_cdp b w
      else if truthy (wss_url (config b)) then setup_wss b w
      else if truthy (chrome_instance_path (config b)) then setup_browser_with_instance b w
      else setup_standard_browser b w)"

text \<open>
  \<^verbatim>\<open>Browser.close\<close>.  \<open>close_try\<close> is the body of the \<^verbatim>\<open>try\<close> (lines 224 to
  227); \<open>close\<close> adds the handler, which catches every \<^verbatim>\<open>Exception\<close>, and the
  \<^verbatim>\<open>finally\<close> block.  A driver object is truthy.
\<close>

definition close_try :: "Browser \<Rightarrow> world \<Rightarrow> (exn + unit) \<times> Browser \<times> world" where
  "close_try b w =
     (if \<not> force_keep_browser_alive (config b) then
        (case drission b of
           None \<Rightarrow> (Inr (), b, w)
         | Some h \<Rightarrow>
             (case page_close h w of
                (Some e, w1) \<Rightarrow> (Inl e, b, w1)
              | (None, w1) \<Rightarrow> (Inr (), b\<lparr>drission := None\<rparr>, w1)))
      else (Inr (), b, w))"

definition close :: "Browser \<Rightarrow> world \<Rightarrow> (exn + unit) \<times> Browser \<times> world" where
  "close b w =
     (case close_try b w of
        (r, b1, w1) \<Rightarrow>
          ((case r of Inl e \<Rightarrow> Inr () | Inr u \<Rightarrow> Inr u),
           b1\<lparr>drission := None\<rparr>, w1))"


subsection \<open>Vocabulary for the properties\<close>

text \<open>The three components of what a method returns.\<close>

abbreviation result_of :: "'a \<times> Browser \<times> world \<Rightarrow> 'a" where
  "result_of x \<equiv> fst x"

abbreviation browser_of :: "'a \<times> Browser \<times> world \<Rightarrow> Browser" where
  "browser_of x \<equiv> fst (snd x)"

abbreviation trace_of :: "'a \<times> Browser \<times> world \<Rightarrow> event list" where
  "trace_of x \<equiv> trace (snd (snd x))"

text \<open>
  A probe outcome after which the code goes on to spawn or to poll again: a
  \<^verbatim>\<open>requests.ConnectionError\<close>, or a response whose status is not 200.
\<close>

definition probe_failed :: "exn + int \<Rightarrow> bool" where
  "probe_failed r =
     (case r of Inl e \<Rightarrow> is_requests_ConnectionError e | Inr status \<Rightarrow> status \<noteq> 200)"

text \<open>An attach outcome that the handler of line 141 would catch.\<close>

definition raises_requests_ConnectionError :: "exn + DrissionPage \<Rightarrow> bool" where
  "raises_requests_ConnectionError r =
     (case r of Inl e \<Rightarrow> is_requests_ConnectionError e | Inr h \<Rightarrow> False)"

text \<open>The events of \<open>n\<close> poll attempts that all failed: a probe, then the sleep.\<close>

definition poll_events :: "nat \<Rightarrow> event list" where
  "poll_events n = concat (replicate n [HttpGet version_url 2, Sleep 1])"

fun is_Popen :: "event \<Rightarrow> bool" where
  "is_Popen (Popen argv out err) = True"
| "is_Popen _ = False"

fun is_HttpGet :: "event \<Rightarrow> bool" where
  "is_HttpGet (HttpGet url t) = True"
| "is_HttpGet _ = False"

fun is_Connect :: "event \<Rightarrow> bool" where
  "is_Connect (Connect u) = True"
| "is_Connect _ = False"

text \<open>
  The configurations that \<^verbatim>\<open>_setup_browser\<close> sends to
  \<^verbatim>\<open>_setup_browser_with_instance\<close>: no CDP endpoint, no WebSocket endpoint, an
  executable path.
\<close>

definition reuse_or_launch_mode :: "BrowserConfig \<Rightarrow> bool" where
  "reuse_or_launch_mode cfg =
     (\<not> truthy (cdp_url cfg) \<and> \<not> truthy (wss_url cfg) \<and> truthy (chrome_instance_path cfg))"

subsection \<open>Concrete configurations and worlds\<close>

definition cfg_instance :: BrowserConfig where
  "cfg_instance =
     \<lparr>headless = False, disable_security = True, extra_chromium_args = [''--lang=en''],
      chrome_instance_path = Some ''/usr/bin/google-chrome'', wss_url = None, cdp_url = None,
      proxy = None, force_keep_browser_alive = False\<rparr>"

definition cfg_cdp :: BrowserConfig where
  "cfg_cdp = cfg_instance\<lparr>cdp_url := Some ''http://remote-host:9333''\<rparr>"

definition cfg_wss :: BrowserConfig where
  "cfg_wss = cfg_instance\<lparr>wss_url := Some ''ws://remote-host:9333/devtools/browser''\<rparr>"

definition cfg_keep_alive :: BrowserConfig where
  "cfg_keep_alive = cfg_instance\<lparr>force_keep_browser_alive := True\<rparr>"

definition cfg_plain :: BrowserConfig where
  "cfg_plain =
     \<lparr>headless = True, disable_security = False, extra_chromium_args = [],
      chrome_instance_path = None, wss_url = None, cdp_url = None,
      proxy = None, force_keep_browser_alive = False\<rparr>"

text \<open>A browser object that already holds driver object number \<open>n\<close>.\<close>

definition browser_holding :: "BrowserConfig \<Rightarrow> nat \<Rightarrow> Browser" where
  "browser_holding cfg n = (Browser_init cfg)\<lparr>drission := Some (DrissionPage n)\<rparr>"

text \<open>The debugging endpoint answers 200 and every driver call succeeds.\<close>

definition world_up :: world where
  "world_up =
     \<lparr>get_results = (\<lambda>n. Inr 200), popen_results = (\<lambda>n. None),
      page_results = (\<lambda>n. Inr (DrissionPage n)),
      close_results = (\<lambda>n. None), trace = []\<rparr>"

text \<open>The endpoint answers 200, but the driver cannot attach.\<close>

definition world_up_attach_fails :: world where
  "world_up_attach_fails =
     world_up\<lparr>page_results := (\<lambda>n. Inl (OtherException ''cannot connect''))\<rparr>"

text \<open>The endpoint answers 200; the first attach raises \<^verbatim>\<open>requests.ConnectionError\<close>.\<close>

definition world_up_attach_refused_once :: world where
  "world_up_attach_refused_once =
     world_up\<lparr>page_results :=
       (\<lambda>n. if n = 0 then Inl RequestsConnectionError else Inr (DrissionPage n))\<rparr>"

text \<open>Every probe is refused, and the driver cannot attach either.\<close>

definition world_down_attach_fails :: world where
  "world_down_attach_fails =
     \<lparr>get_results = (\<lambda>n. Inl RequestsConnectionError), popen_results = (\<lambda>n. None),
      page_results = (\<lambda>n. Inl (OtherException ''cannot connect'')),
      close_results = (\<lambda>n. None), trace = []\<rparr>"

text \<open>
  Every probe is refused, but the attach after the last sleep succeeds (the
  spawned browser became ready during that sleep).
\<close>

definition world_down_attach_ok :: world where
  "world_down_attach_ok =
     \<lparr>get_results = (\<lambda>n. Inl RequestsConnectionError), popen_results = (\<lambda>n. None),
      page_results = (\<lambda>n. Inr (DrissionPage 1)),
      close_results = (\<lambda>n. None), trace = []\<rparr>"

text \<open>The port accepts the connection but no answer arrives within the timeout.\<close>

definition world_read_timeout :: world where
  "world_read_timeout = world_up\<lparr>get_results := (\<lambda>n. Inl RequestsReadTimeout)\<rparr>"

text \<open>Terminating the browser fails.\<close>

definition world_close_fails :: world where
  "world_close_fails =
     world_up\<lparr>close_results := (\<lambda>n. Some (OtherException ''browser already gone''))\<rparr>"


section \<open>Properties\<close>

subsection \<open>The polling loop\<close>

lemma poll_events_Suc:
  "poll_events (Suc n) = [HttpGet version_url 2, Sleep 1] @ poll_events n"
  by (simp add: poll_events_def)

lemma poll_events_count:
  "length (filter is_HttpGet (poll_events n)) = n \<and> \<not> list_ex is_Popen (poll_events n)"
  by (induction n) (simp_all add: poll_events_def)

text \<open>When the next \<open>n\<close> probes all fail, the loop runs all \<open>n\<close> attempts.\<close>

lemma poll_ready_all_failed:
  "\<forall>i<n. probe_failed (get_results w i) \<Longrightarrow>
   poll_ready n w =
     (Inr (), w\<lparr>get_results := (\<lambda>k. get_results w (k + n)),
               trace := trace w @ poll_events n\<rparr>)"
proof (induction n arbitrary: w)
  case 0
  then show ?case by (simp add: poll_events_def)
next
  case (Suc n)
  have h0: "probe_failed (get_results w 0)"
    using Suc.prems by simp
  let ?w1 = "asyncio_sleep 1 (snd (requests_get version_url 2 w))"
  have "\<forall>i<n. probe_failed (get_results ?w1 i)"
    using Suc.prems by (simp add: asyncio_sleep_def requests_get_def)
  from Suc.IH[OF this]
  have ih: "poll_ready n ?w1 =
      (Inr (), ?w1\<lparr>get_results := (\<lambda>k. get_results ?w1 (k + n)),
                   trace := trace ?w1 @ poll_events n\<rparr>)" .
  show ?case
    using h0 ih
    by (auto simp: probe_failed_def requests_get_def asyncio_sleep_def poll_events_Suc
        split: sum.splits)
qed

text \<open>The loop only probes and sleeps: it extends the trace and spawns nothing.\<close>

lemma poll_ready_trace:
  "\<exists>evs. trace (snd (poll_ready n w)) = trace w @ evs \<and> \<not> list_ex is_Popen evs"
proof (induction n arbitrary: w)
  case 0
  then show ?case by simp
next
  case (Suc n)
  let ?w0 = "snd (requests_get version_url 2 w)"
  let ?w1 = "asyncio_sleep 1 ?w0"
  obtain evs where evs: "trace (snd (poll_ready n ?w1)) = trace ?w1 @ evs" "\<not> list_ex is_Popen evs"
    using Suc.IH[of ?w1] by blast
  have t1: "trace ?w1 = trace w @ [HttpGet version_url 2, Sleep 1]"
    by (simp add: asyncio_sleep_def requests_get_def)
  have t0: "trace ?w0 = trace w @ [HttpGet version_url 2]"
    by (simp add: requests_get_def)
  have "snd (poll_ready (Suc n) w) = ?w0 \<or> snd (poll_ready (Suc n) w) = snd (poll_ready n ?w1)"
    by (cases "get_results w 0") (auto simp: requests_get_def split: sum.splits)
  then show ?case
  proof
    assume "snd (poll_ready (Suc n) w) = ?w0"
    then show ?thesis
      using t0 by (intro exI[of _ "[HttpGet version_url 2]"]) simp
  next
    assume "snd (poll_ready (Suc n) w) = snd (poll_ready n ?w1)"
    then show ?thesis
      using t1 evs by (intro exI[of _ "[HttpGet version_url 2, Sleep 1] @ evs"]) simp
  qed
qed

text \<open>Starting a new instance issues the spawn call first, and only once.\<close>

lemma start_new_instance_trace:
  "\<exists>evs. trace_of (start_new_instance p b w)
           = trace w @ [Popen ([p, ''--remote-debugging-port=9222''] @ extra_chromium_args (config b))
                          DEVNULL DEVNULL] @ evs
         \<and> \<not> list_ex is_Popen evs"
proof -
  define argv where "argv = [p, ''--remote-debugging-port=9222''] @ extra_chromium_args (config b)"
  define w1 where "w1 = snd (subprocess_Popen argv DEVNULL DEVNULL w)"
  define w2 where "w2 = snd (poll_ready 10 w1)"
  define w3 where "w3 = snd (DrissionPage_url debug_url w2)"
  have t1: "trace w1 = trace w @ [Popen argv DEVNULL DEVNULL]"
    by (simp add: w1_def subprocess_Popen_def)
  obtain evs where evs: "trace w2 = trace w1 @ evs" "\<not> list_ex is_Popen evs"
    using poll_ready_trace[of 10 w1] unfolding w2_def by blast
  have t3: "trace w3 = trace w2 @ [Connect debug_url]"
    by (simp add: w3_def DrissionPage_url_def)
  have "snd (snd (start_new_instance p b w)) \<in> {w1, w2, w3}"
    unfolding start_new_instance_def argv_def[symmetric] w1_def w2_def w3_def
    by (auto split: prod.splits option.splits sum.splits)
  then consider "snd (snd (start_new_instance p b w)) = w1"
    | "snd (snd (start_new_instance p b w)) = w2"
    | "snd (snd (start_new_instance p b w)) = w3"
    by blast
  then show ?thesis
  proof cases
    case 1
    then show ?thesis
      using t1 unfolding argv_def by (intro exI[of _ "[]"]) simp
  next
    case 2
    then show ?thesis
      using t1 evs unfolding argv_def by (intro exI[of _ evs]) simp
  next
    case 3
    then show ?thesis
      using t1 evs t3 unfolding argv_def by (intro exI[of _ "evs @ [Connect debug_url]"]) simp
  qed
qed

subsection \<open>Mode selection in \<^verbatim>\<open>_setup_browser\<close>\<close>

lemma setup_browser_cdp:
  assumes "cdp_url (config b) = Some u" and "u \<noteq> []"
  shows "setup_browser b w = setup_cdp b w
       \<and> result_of (setup_browser b w) = page_results w 0
       \<and> trace_of (setup_browser b w) = trace w @ [Connect u]"
  using assms
  by (auto simp: setup_browser_def setup_cdp_def truthy_def DrissionPage_url_def split: sum.splits)

lemma setup_browser_wss:
  assumes "\<not> truthy (cdp_url (config b))" and "wss_url (config b) = Some u" and "u \<noteq> []"
  shows "setup_browser b w = setup_wss b w
       \<and> result_of (setup_browser b w) = page_results w 0
       \<and> trace_of (setup_browser b w) = trace w @ [Connect u]"
  using assms
  by (auto simp: setup_browser_def setup_wss_def truthy_def DrissionPage_url_def split: sum.splits)

lemma setup_browser_reuse_or_launch:
  "reuse_or_launch_mode (config b) \<Longrightarrow> setup_browser b w = setup_browser_with_instance b w"
  by (simp add: setup_browser_def reuse_or_launch_mode_def)

lemma setup_browser_standard:
  assumes "\<not> truthy (cdp_url (config b))" and "\<not> truthy (wss_url (config b))"
    and "\<not> truthy (chrome_instance_path (config b))"
  shows "setup_browser b w = setup_standard_browser b w"
  using assms by (simp add: setup_browser_def)

subsection \<open>Reuse or launch\<close>

text \<open>
  Claim C1, as the code has it.  In reuse-or-launch mode, when the initial
  probe and the ten polls after the spawn all fail (each by a
  \<^verbatim>\<open>requests.ConnectionError\<close> or a status other than 200), the spawn call
  itself succeeds and the attach that follows the polling raises, then
  \<^verbatim>\<open>_setup_browser\<close> raises the RuntimeError that tells the operator to close
  all existing Chrome instances and try again.  The calls it has made are, in
  order: the initial probe, one spawn, ten times a probe and a sleep of one
  second, one attach.  The object is unchanged.
\<close>

theorem reuse_or_launch_all_probes_fail:
  assumes mode: "reuse_or_launch_mode (config b)"
    and path: "chrome_instance_path (config b) = Some p"
    and probes: "\<forall>i<11. probe_failed (get_results w i)"
    and spawn: "popen_results w 0 = None"
    and attach: "page_results w 0 = Inl e"
  shows "result_of (setup_browser b w) = Inl (RuntimeError conflict_message)
       \<and> browser_of (setup_browser b w) = b
       \<and> trace_of (setup_browser b w)
           = trace w
             @ [HttpGet version_url 2,
                Popen ([p, ''--remote-debugging-port=9222''] @ extra_chromium_args (config b))
                  DEVNULL DEVNULL]
             @ poll_events 10 @ [Connect debug_url]
       \<and> length (filter is_HttpGet (poll_events 10)) = 10
       \<and> \<not> list_ex is_Popen (poll_events 10 @ [Connect debug_url])"
proof -
  have p: "p \<noteq> []"
    using mode path by (simp add: reuse_or_launch_mode_def truthy_def)
  have first: "probe_failed (get_results w 0)"
    using probes by simp
  define w1 where "w1 = snd (requests_get version_url 2 w)"
  define argv where "argv = [p, ''--remote-debugging-port=9222''] @ extra_chromium_args (config b)"
  define w2 where "w2 = snd (subprocess_Popen argv DEVNULL DEVNULL w1)"
  define w3 where "w3 = w2\<lparr>get_results := (\<lambda>k. get_results w2 (k + 10)),
                            trace := trace w2 @ poll_events 10\<rparr>"
  define w4 where "w4 = snd (DrissionPage_url debug_url w3)"
  have polls: "\<forall>i<10. probe_failed (get_results w2 i)"
    using probes by (simp add: w2_def w1_def requests_get_def subprocess_Popen_def)
  have popen: "subprocess_Popen argv DEVNULL DEVNULL w1 = (None, w2)"
    using spawn by (simp add: w2_def w1_def requests_get_def subprocess_Popen_def)
  have poll: "poll_ready 10 w2 = (Inr (), w3)"
    using poll_ready_all_failed[OF polls] by (simp add: w3_def)
  have conn: "DrissionPage_url debug_url w3 = (Inl e, w4)"
    using attach
    by (simp add: w4_def w3_def w2_def w1_def DrissionPage_url_def requests_get_def
          subprocess_Popen_def)
  have tr: "trace w4 = trace w @ [HttpGet version_url 2, Popen argv DEVNULL DEVNULL]
                          @ poll_events 10 @ [Connect debug_url]"
    by (simp add: w4_def w3_def w2_def w1_def DrissionPage_url_def requests_get_def
          subprocess_Popen_def)
  have start: "start_new_instance p b w1 = (Inl (RuntimeError conflict_message), b, w4)"
    unfolding start_new_instance_def argv_def[symmetric] by (simp add: popen poll conn)
  have "setup_browser b w = start_new_instance p b w1"
    using mode path p first
    by (auto simp: setup_browser_def reuse_or_launch_mode_def setup_browser_with_instance_def
          probe_failed_def requests_get_def w1_def split: sum.splits)
  then show ?thesis
    using start tr poll_events_count[of 10] by (simp add: argv_def)
qed

theorem reuse_or_launch_all_probes_fail_witness:
  "reuse_or_launch_mode cfg_instance
   \<and> list_all probe_failed (map (get_results world_down_attach_fails) [0..<11])
   \<and> result_of (setup_browser (Browser_init cfg_instance) world_down_attach_fails)
       = Inl (RuntimeError conflict_message)
   \<and> trace_of (setup_browser (Browser_init cfg_instance) world_down_attach_fails)
       = [HttpGet version_url 2,
          Popen [''/usr/bin/google-chrome'', ''--remote-debugging-port=9222'', ''--lang=en'']
            DEVNULL DEVNULL]
         @ poll_events 10 @ [Connect debug_url]"
proof -
  have c: "config (Browser_init cfg_instance) = cfg_instance"
    by (simp add: Browser_init_def)
  have m: "reuse_or_launch_mode (config (Browser_init cfg_instance))"
    by (simp add: reuse_or_launch_mode_def Browser_init_def cfg_instance_def truthy_def)
  have q: "chrome_instance_path (config (Browser_init cfg_instance)) = Some ''/usr/bin/google-chrome''"
    by (simp add: Browser_init_def cfg_instance_def)
  have p: "\<forall>i<11. probe_failed (get_results world_down_attach_fails i)"
    by (simp add: world_down_attach_fails_def probe_failed_def)
  have s: "popen_results world_down_attach_fails 0 = None"
    by (simp add: world_down_attach_fails_def)
  have a: "page_results world_down_attach_fails 0 = Inl (OtherException ''cannot connect'')"
    by (simp add: world_down_attach_fails_def)
  have x: "extra_chromium_args cfg_instance = [''--lang=en'']"
    by (simp add: cfg_instance_def)
  have t: "trace world_down_attach_fails = []"
    by (simp add: world_down_attach_fails_def)
  have l: "list_all probe_failed (map (get_results world_down_attach_fails) [0..<11])"
    by (simp add: world_down_attach_fails_def probe_failed_def list_all_iff)
  show ?thesis
    using reuse_or_launch_all_probes_fail[OF m q p s a] m l by (simp add: c t x)
qed

text \<open>
  Claim C1 as stated fails: with every probe refused, the attach after the
  last sleep can still succeed, and then no error is raised.
\<close>

theorem all_probes_fail_counterexample:
  "reuse_or_launch_mode cfg_instance
   \<and> list_all probe_failed (map (get_results world_down_attach_ok) [0..<11])
   \<and> result_of (setup_browser (Browser_init cfg_instance) world_down_attach_ok)
       = Inr (DrissionPage 1)"
  by code_simp

text \<open>
  Claim C2, as the code has it.  In reuse-or-launch mode, when the initial
  probe answers 200, \<^verbatim>\<open>_setup_browser\<close> makes exactly two calls, the probe and
  one attach to the local debugging endpoint, and spawns nothing, provided
  the attach does not raise a \<^verbatim>\<open>requests.ConnectionError\<close>.  Its result is
  the attach's: the driver object, which is then stored in the browser
  object, or the exception the attach raised.
\<close>

theorem reuse_running_instance:
  assumes mode: "reuse_or_launch_mode (config b)"
    and probe: "get_results w 0 = Inr 200"
    and attach: "\<not> raises_requests_ConnectionError (page_results w 0)"
  shows "result_of (setup_browser b w) = page_results w 0
       \<and> browser_of (setup_browser b w)
           = (case page_results w 0 of Inl e \<Rightarrow> b | Inr h \<Rightarrow> b\<lparr>drission := Some h\<rparr>)
       \<and> trace_of (setup_browser b w) = trace w @ [HttpGet version_url 2, Connect debug_url]"
  using assms
  by (auto simp: setup_browser_def reuse_or_launch_mode_def setup_browser_with_instance_def
        raises_requests_ConnectionError_def requests_get_def DrissionPage_url_def truthy_def
      split: sum.splits option.splits)

theorem reuse_running_instance_witness:
  "reuse_or_launch_mode cfg_instance
   \<and> get_results world_up 0 = Inr 200
   \<and> \<not> raises_requests_ConnectionError (page_results world_up 0)
   \<and> result_of (setup_browser (Browser_init cfg_instance) world_up) = Inr (DrissionPage 0)
   \<and> drission (browser_of (setup_browser (Browser_init cfg_instance) world_up))
       = Some (DrissionPage 0)
   \<and> trace_of (setup_browser (Browser_init cfg_instance) world_up)
       = [HttpGet version_url 2, Connect debug_url]"
proof -
  have m: "reuse_or_launch_mode (config (Browser_init cfg_instance))"
    by (simp add: reuse_or_launch_mode_def Browser_init_def cfg_instance_def truthy_def)
  have p: "get_results world_up 0 = Inr 200"
    by (simp add: world_up_def)
  have a: "\<not> raises_requests_ConnectionError (page_results world_up 0)"
    by (simp add: world_up_def raises_requests_ConnectionError_def)
  have c: "config (Browser_init cfg_instance) = cfg_instance"
    by (simp add: Browser_init_def)
  have t: "trace world_up = []" "page_results world_up 0 = Inr (DrissionPage 0)"
    by (simp_all add: world_up_def)
  show ?thesis
    using reuse_running_instance[OF m p a] m p a by (simp add: c t)
qed

text \<open>
  Claim C2 as stated fails: the probe answers 200 but the attach raises, so
  \<^verbatim>\<open>_setup_browser\<close> raises that exception instead of returning, and the
  browser object holds no driver object.
\<close>

theorem attach_fails_counterexample:
  "reuse_or_launch_mode cfg_instance
   \<and> get_results world_up_attach_fails 0 = Inr 200
   \<and> result_of (setup_browser (Browser_init cfg_instance) world_up_attach_fails)
       = Inl (OtherException ''cannot connect'')
   \<and> drission (browser_of (setup_browser (Browser_init cfg_instance) world_up_attach_fails))
       = None"
  by code_simp

text \<open>
  The attach of line 139 lies inside the \<^verbatim>\<open>try\<close>: when it raises a
  \<^verbatim>\<open>requests.ConnectionError\<close>, the handler catches it and a process is
  spawned although the probe answered 200.
\<close>

lemma attach_connection_error_is_caught:
  "get_results world_up_attach_refused_once 0 = Inr 200
   \<and> trace_of (setup_browser (Browser_init cfg_instance) world_up_attach_refused_once)
       = [HttpGet version_url 2, Connect debug_url,
          Popen [''/usr/bin/google-chrome'', ''--remote-debugging-port=9222'', ''--lang=en'']
            DEVNULL DEVNULL,
          HttpGet version_url 2, Connect debug_url]
   \<and> result_of (setup_browser (Browser_init cfg_instance) world_up_attach_refused_once)
       = Inr (DrissionPage 1)"
  by code_simp

text \<open>
  Claim C6, as the code has it.  In reuse-or-launch mode, when the initial
  probe fails by a \<^verbatim>\<open>requests.ConnectionError\<close> (connection refused, or a
  connect timeout) or answers with a status other than 200, the next call
  after the probe is the spawn: \<^verbatim>\<open>Popen\<close> on the configured executable path,
  \<^verbatim>\<open>--remote-debugging-port=9222\<close> and the extra arguments, with standard
  output and standard error sent to \<^verbatim>\<open>DEVNULL\<close>.  No other spawn follows.
\<close>

theorem failed_probe_spawns:
  assumes mode: "reuse_or_launch_mode (config b)"
    and path: "chrome_instance_path (config b) = Some p"
    and probe: "probe_failed (get_results w 0)"
  shows "\<exists>evs. trace_of (setup_browser b w)
                 = trace w
                   @ [HttpGet version_url 2,
                      Popen ([p, ''--remote-debugging-port=9222''] @ extra_chromium_args (config b))
                        DEVNULL DEVNULL]
                   @ evs
               \<and> \<not> list_ex is_Popen evs"
proof -
  have p: "p \<noteq> []"
    using mode path by (simp add: reuse_or_launch_mode_def truthy_def)
  define w1 where "w1 = snd (requests_get version_url 2 w)"
  have t1: "trace w1 = trace w @ [HttpGet version_url 2]"
    by (simp add: w1_def requests_get_def)
  have "setup_browser b w = start_new_instance p b w1"
    using mode path p probe
    by (auto simp: setup_browser_def reuse_or_launch_mode_def setup_browser_with_instance_def
          probe_failed_def requests_get_def w1_def split: sum.splits)
  then show ?thesis
    using start_new_instance_trace[of p b w1] t1 by auto
qed

theorem failed_probe_spawns_witness:
  "reuse_or_launch_mode cfg_instance
   \<and> probe_failed (get_results world_down_attach_ok 0)
   \<and> (\<exists>evs. trace_of (setup_browser (Browser_init cfg_instance) world_down_attach_ok)
                 = [HttpGet version_url 2,
                    Popen [''/usr/bin/google-chrome'', ''--remote-debugging-port=9222'', ''--lang=en'']
                      DEVNULL DEVNULL] @ evs
               \<and> \<not> list_ex is_Popen evs)"
proof -
  have c: "config (Browser_init cfg_instance) = cfg_instance"
    by (simp add: Browser_init_def)
  have m: "reuse_or_launch_mode (config (Browser_init cfg_instance))"
    by (simp add: reuse_or_launch_mode_def Browser_init_def cfg_instance_def truthy_def)
  have q: "chrome_instance_path (config (Browser_init cfg_instance)) = Some ''/usr/bin/google-chrome''"
    by (simp add: Browser_init_def cfg_instance_def)
  have p: "probe_failed (get_results world_down_attach_ok 0)"
    by (simp add: world_down_attach_ok_def probe_failed_def)
  have x: "extra_chromium_args cfg_instance = [''--lang=en'']"
    by (simp add: cfg_instance_def)
  have t: "trace world_down_attach_ok = []"
    by (simp add: world_down_attach_ok_def)
  show ?thesis
    using failed_probe_spawns[OF m q p] m p by (simp add: c t x)
qed

text \<open>
  Claim C6 as stated fails for a timeout that is not a connection error: a
  read timeout of the initial probe is not caught, so it leaves
  \<^verbatim>\<open>_setup_browser\<close> as an error and nothing is spawned.
\<close>

theorem read_timeout_counterexample:
  "reuse_or_launch_mode cfg_instance
   \<and> result_of (setup_browser (Browser_init cfg_instance) world_read_timeout)
       = Inl RequestsReadTimeout
   \<and> trace_of (setup_browser (Browser_init cfg_instance) world_read_timeout)
       = [HttpGet version_url 2]"
  by code_simp


subsection \<open>The public entry point\<close>

text \<open>
  Claim C4.  When the browser object already holds a driver object,
  \<^verbatim>\<open>get_drission_browser\<close> returns that same object and changes neither the
  browser object nor the world: no connect, no probe, no spawn, no launch.
\<close>

theorem get_drission_browser_idempotent:
  assumes "drission b = Some h"
  shows "get_drission_browser b w = (Inr h, b, w)"
  using assms by (simp add: get_drission_browser_def)

theorem get_drission_browser_idempotent_witness:
  "drission (browser_holding cfg_cdp 3) = Some (DrissionPage 3)
   \<and> get_drission_browser (browser_holding cfg_cdp 3) world_down_attach_fails
       = (Inr (DrissionPage 3), browser_holding cfg_cdp 3, world_down_attach_fails)"
proof -
  have h: "drission (browser_holding cfg_cdp 3) = Some (DrissionPage 3)"
    by (simp add: browser_holding_def)
  show ?thesis
    using get_drission_browser_idempotent[OF h] h by simp
qed

text \<open>
  Claim C9.  When the browser object holds no driver object,
  \<^verbatim>\<open>get_drission_browser\<close> is \<^verbatim>\<open>_init\<close>: its only call is one launch, whose
  arguments are the headless flag when configured, the extra arguments and
  the security arguments, in this order.  Replacing the CDP endpoint, the
  WebSocket endpoint, the executable path and the proxy of the configuration
  by any other values changes neither the result nor the calls made.
\<close>

theorem get_drission_browser_fresh_launch:
  assumes "drission b = None"
  shows "get_drission_browser b w = init b w
       \<and> result_of (get_drission_browser b w) = page_results w 0
       \<and> trace_of (get_drission_browser b w)
           = trace w @ [Launch ((if headless (config b) then [''--headless''] else [])
                                @ extra_chromium_args (config b) @ disable_security_args b)]
       \<and> result_of (get_drission_browser
             (b\<lparr>config := (config b)\<lparr>cdp_url := c, wss_url := s,
                                     chrome_instance_path := p, proxy := x\<rparr>\<rparr>) w)
           = result_of (get_drission_browser b w)
       \<and> snd (snd (get_drission_browser
             (b\<lparr>config := (config b)\<lparr>cdp_url := c, wss_url := s,
                                     chrome_instance_path := p, proxy := x\<rparr>\<rparr>) w))
           = snd (snd (get_drission_browser b w))"
  using assms
  by (auto simp: get_drission_browser_def init_def init_options_def DrissionPage_options_def
      split: sum.splits)

theorem get_drission_browser_fresh_launch_witness:
  "drission (Browser_init cfg_plain) = None
   \<and> trace_of (get_drission_browser (Browser_init cfg_plain) world_up) = [Launch [''--headless'']]
   \<and> snd (snd (get_drission_browser
        (Browser_init (cfg_plain\<lparr>cdp_url := Some ''http://remote-host:9333'', wss_url := None,
                         chrome_instance_path := Some ''/usr/bin/google-chrome'',
                         proxy := Some [(''server'', ''http://proxy:3128'')]\<rparr>)) world_up))
       = snd (snd (get_drission_browser (Browser_init cfg_plain) world_up))"
proof -
  have n: "drission (Browser_init cfg_plain) = None"
    by (simp add: Browser_init_def)
  have e: "Browser_init (cfg_plain\<lparr>cdp_url := Some ''http://remote-host:9333'', wss_url := None,
                         chrome_instance_path := Some ''/usr/bin/google-chrome'',
                         proxy := Some [(''server'', ''http://proxy:3128'')]\<rparr>)
         = (Browser_init cfg_plain)\<lparr>config := (config (Browser_init cfg_plain))
               \<lparr>cdp_url := Some ''http://remote-host:9333'', wss_url := None,
                         chrome_instance_path := Some ''/usr/bin/google-chrome'',
                         proxy := Some [(''server'', ''http://proxy:3128'')]\<rparr>\<rparr>"
    by (simp add: Browser_init_def)
  have a: "(if headless (config (Browser_init cfg_plain)) then [''--headless''] else [])
             @ extra_chromium_args (config (Browser_init cfg_plain))
             @ disable_security_args (Browser_init cfg_plain) = [''--headless'']"
    by (simp add: Browser_init_def cfg_plain_def)
  have t: "trace world_up = []"
    by (simp add: world_up_def)
  note th = get_drission_browser_fresh_launch[OF n, where w = world_up
        and c = "Some ''http://remote-host:9333''" and s = None
        and p = "Some ''/usr/bin/google-chrome''"
        and x = "Some [(''server'', ''http://proxy:3128'')]"]
  have launch: "trace_of (get_drission_browser (Browser_init cfg_plain) world_up)
                  = [Launch [''--headless'']]"
    using th[THEN conjunct2, THEN conjunct2, THEN conjunct1] unfolding a by (simp add: t)
  have same: "snd (snd (get_drission_browser
        (Browser_init (cfg_plain\<lparr>cdp_url := Some ''http://remote-host:9333'', wss_url := None,
                         chrome_instance_path := Some ''/usr/bin/google-chrome'',
                         proxy := Some [(''server'', ''http://proxy:3128'')]\<rparr>)) world_up))
       = snd (snd (get_drission_browser (Browser_init cfg_plain) world_up))"
    using th[THEN conjunct2, THEN conjunct2, THEN conjunct2, THEN conjunct2] unfolding e .
  show ?thesis
    using n launch same by blast
qed

text \<open>
  Claim C3 at a configuration with a CDP endpoint.  \<^verbatim>\<open>get_drission_browser\<close>
  launches a fresh browser and never connects to the endpoint, whereas
  \<^verbatim>\<open>_setup_browser\<close>, which nothing calls, makes the one connect call.
\<close>

theorem public_entry_ignores_cdp_url:
  "truthy (cdp_url cfg_cdp)
   \<and> trace_of (get_drission_browser (Browser_init cfg_cdp) world_up)
       = [Launch [''--lang=en'', ''--disable-web-security'', ''--disable-site-isolation-trials'',
                  ''--disable-features=IsolateOrigins,site-per-process'']]
   \<and> \<not> list_ex is_Connect (trace_of (get_drission_browser (Browser_init cfg_cdp) world_up))
   \<and> trace_of (setup_browser (Browser_init cfg_cdp) world_up) = [Connect ''http://remote-host:9333'']"
  by code_simp

text \<open>
  Claim C5 at a configuration with a WebSocket endpoint and at one with an
  executable path.  \<^verbatim>\<open>_setup_browser\<close> selects attach-by-WSS and
  reuse-or-launch, but \<^verbatim>\<open>get_drission_browser\<close> makes the same launch call
  for both and selects no mode.
\<close>

theorem public_entry_skips_mode_selection:
  "truthy (wss_url cfg_wss)
   \<and> trace_of (setup_browser (Browser_init cfg_wss) world_up)
       = [Connect ''ws://remote-host:9333/devtools/browser'']
   \<and> trace_of (get_drission_browser (Browser_init cfg_wss) world_up)
       = [Launch [''--lang=en'', ''--disable-web-security'', ''--disable-site-isolation-trials'',
                  ''--disable-features=IsolateOrigins,site-per-process'']]
   \<and> reuse_or_launch_mode cfg_instance
   \<and> trace_of (setup_browser (Browser_init cfg_instance) world_up)
       = [HttpGet version_url 2, Connect debug_url]
   \<and> trace_of (get_drission_browser (Browser_init cfg_instance) world_up)
       = [Launch [''--lang=en'', ''--disable-web-security'', ''--disable-site-isolation-trials'',
                  ''--disable-features=IsolateOrigins,site-per-process'']]"
  by code_simp

subsection \<open>Fresh standard launch\<close>

text \<open>
  Claim C10.  The argument list that \<^verbatim>\<open>_setup_standard_browser\<close> builds
  contains \<^verbatim>\<open>--no-sandbox\<close> for every browser object, whatever its security
  arguments are.  The method either stops at the missing \<^verbatim>\<open>"server"\<close> key of
  the proxy, before any call, or makes one launch call whose arguments
  contain \<^verbatim>\<open>--no-sandbox\<close>.
\<close>

theorem standard_launch_no_sandbox:
  "''--no-sandbox'' \<in> set (standard_args b)
   \<and> (case standard_options b of
         Inl e \<Rightarrow> setup_standard_browser b w = (Inl (KeyError ''server''), b, w)
       | Inr args \<Rightarrow> ''--no-sandbox'' \<in> set args
                     \<and> trace_of (setup_standard_browser b w) = trace w @ [Launch args])"
  by (auto simp: standard_args_def baseline_args_def standard_options_def
        setup_standard_browser_def DrissionPage_options_def split: option.splits sum.splits)

theorem standard_launch_no_sandbox_witness:
  "\<not> disable_security (config (Browser_init cfg_plain))
   \<and> trace_of (setup_browser (Browser_init cfg_plain) world_up)
       = [Launch (''--headless'' # baseline_args)]
   \<and> ''--no-sandbox'' \<in> set (''--headless'' # baseline_args)"
proof -
  have o: "standard_options (Browser_init cfg_plain) = Inr (''--headless'' # baseline_args)"
    by (simp add: standard_options_def standard_args_def Browser_init_def cfg_plain_def)
  have s: "setup_browser (Browser_init cfg_plain) world_up
             = setup_standard_browser (Browser_init cfg_plain) world_up"
    by (simp add: setup_browser_def Browser_init_def cfg_plain_def truthy_def)
  have t: "trace world_up = []"
    by (simp add: world_up_def)
  have d: "\<not> disable_security (config (Browser_init cfg_plain))"
    by (simp add: Browser_init_def cfg_plain_def)
  show ?thesis
    using standard_launch_no_sandbox[of "Browser_init cfg_plain" world_up] d
    by (simp add: o s t)
qed

subsection \<open>Teardown\<close>

text \<open>
  Claim C7.  For every browser object and every world, also one in which
  terminating the browser raises, \<^verbatim>\<open>close\<close> returns normally and leaves no
  driver object in the browser object; a second \<^verbatim>\<open>close\<close> right after it
  returns normally as well, leaves the reference cleared, and changes
  nothing.
\<close>

theorem close_twice_never_raises:
  "result_of (close b w) = Inr ()
   \<and> drission (browser_of (close b w)) = None
   \<and> result_of (close (browser_of (close b w)) (snd (snd (close b w)))) = Inr ()
   \<and> drission (browser_of (close (browser_of (close b w)) (snd (snd (close b w))))) = None
   \<and> snd (close (browser_of (close b w)) (snd (snd (close b w)))) = snd (close b w)"
  by (auto simp: close_def close_try_def page_close_def
      split: option.splits prod.splits sum.splits)

theorem close_twice_never_raises_witness:
  "close_results world_close_fails 0 = Some (OtherException ''browser already gone'')
   \<and> result_of (close (browser_holding cfg_instance 3) world_close_fails) = Inr ()
   \<and> drission (browser_of (close (browser_holding cfg_instance 3) world_close_fails)) = None
   \<and> trace_of (close (browser_holding cfg_instance 3) world_close_fails)
       = [ClosePage (DrissionPage 3)]
   \<and> result_of (close (browser_of (close (browser_holding cfg_instance 3) world_close_fails))
                      (snd (snd (close (browser_holding cfg_instance 3) world_close_fails))))
       = Inr ()
   \<and> drission (browser_of
         (close (browser_of (close (browser_holding cfg_instance 3) world_close_fails))
                (snd (snd (close (browser_holding cfg_instance 3) world_close_fails)))))
       = None"
proof -
  have c: "close_results world_close_fails 0 = Some (OtherException ''browser already gone'')"
    by (simp add: world_close_fails_def)
  have t: "trace_of (close (browser_holding cfg_instance 3) world_close_fails)
             = [ClosePage (DrissionPage 3)]"
    by (simp add: close_def close_try_def page_close_def browser_holding_def Browser_init_def
          cfg_instance_def world_close_fails_def world_up_def)
  show ?thesis
    using close_twice_never_raises[of "browser_holding cfg_instance 3" world_close_fails] c t
    by simp
qed

text \<open>
  Claim C8.  When the keep-alive flag of the configuration is set, \<^verbatim>\<open>close\<close>
  returns normally, clears the driver reference, and changes nothing else:
  the configuration and the security arguments are the same, and the world,
  hence the trace of external calls, is the same, so no termination call was
  made.
\<close>

theorem close_keep_alive:
  assumes "force_keep_browser_alive (config b)"
  shows "close b w = (Inr (), b\<lparr>drission := None\<rparr>, w)"
  using assms by (simp add: close_def close_try_def)

theorem close_keep_alive_witness:
  "force_keep_browser_alive (config (browser_holding cfg_keep_alive 3))
   \<and> close (browser_holding cfg_keep_alive 3) world_up
       = (Inr (), Browser_init cfg_keep_alive, world_up)"
proof -
  have k: "force_keep_browser_alive (config (browser_holding cfg_keep_alive 3))"
    by (simp add: browser_holding_def Browser_init_def cfg_keep_alive_def)
  have e: "(browser_holding cfg_keep_alive 3)\<lparr>drission := None\<rparr> = Browser_init cfg_keep_alive"
    by (simp add: browser_holding_def Browser_init_def)
  show ?thesis
    using close_keep_alive[OF k, of world_up] k by (simp add: e)
qed

end
